theory Spec2Isabelle
  imports Main "HOL-Library.Word"
begin

unbundle bit_operations_syntax

section \<open>The CRC-64-WE accumulator (bootloader/util.hpp)\<close>

type_synonym u8 = "8 word"
type_synonym u32 = "32 word"
type_synonym u64 = "64 word"

text \<open>The class has one field, \<^verbatim>\<open>crc_\<close> (here \<open>crc\<close>), the running register, initialised to
  all ones.\<close>

record CRC64WE =
  crc :: u64

definition CRC64WE_init :: CRC64WE where
  "CRC64WE_init = \<lparr>crc = 0xFFFFFFFFFFFFFFFF\<rparr>"

definition Poly :: u64 where
  "Poly = 0x42F0E1EBA9EA3693"

definition Mask :: u64 where
  "Mask = push_bit 63 1"

text \<open>
  One line of the unrolled body of \<open>add(std::uint8_t)\<close>:
  \<^verbatim>\<open>crc_ = (crc_ & Mask) ? (crc_ << 1) ^ Poly : crc_ << 1;\<close>
\<close>

definition unrolled_line :: "u64 \<Rightarrow> u64" where
  "unrolled_line x = (if x AND Mask \<noteq> 0 then push_bit 1 x XOR Poly else push_bit 1 x)"

text \<open>\<open>add(std::uint8_t byte)\<close>: the byte goes into the top eight bits, then the line above
  is written out eight times.\<close>

definition add :: "CRC64WE \<Rightarrow> u8 \<Rightarrow> CRC64WE" where
  "add c byte =
     (let x0 = crc c XOR push_bit 56 (ucast byte);
          x1 = unrolled_line x0;
          x2 = unrolled_line x1;
          x3 = unrolled_line x2;
          x4 = unrolled_line x3;
          x5 = unrolled_line x4;
          x6 = unrolled_line x5;
          x7 = unrolled_line x6;
          x8 = unrolled_line x7
      in c\<lparr>crc := x8\<rparr>)"

text \<open>
  \<open>add(const void* data, unsigned len)\<close>. A pointer is \<open>None\<close> when it is null and
  otherwise \<open>Some bytes\<close>, the bytes that can be read from it onwards. The loop
  \<^verbatim>\<open>while (len --> 0) add(*bytes++)\<close> runs \<open>len\<close> times; reading where nothing can be read
  has no defined behaviour in the source and is the fault \<open>Invalid_read\<close>. The counter only
  counts down to zero, so its width plays no part and it is a natural number.
\<close>

datatype fault = Assertion_failed | Invalid_read

fun add_loop :: "CRC64WE \<Rightarrow> u8 list \<Rightarrow> nat \<Rightarrow> fault + CRC64WE" where
  "add_loop c bytes 0 = Inr c"
| "add_loop c [] (Suc len) = Inl Invalid_read"
| "add_loop c (b # bytes) (Suc len) = add_loop (add c b) bytes len"

text \<open>\<^verbatim>\<open>assert(bytes != nullptr)\<close> stands before the loop and is compiled out when \<open>NDEBUG\<close>
  is defined (the first argument).\<close>

definition add_buffer :: "bool \<Rightarrow> CRC64WE \<Rightarrow> u8 list option \<Rightarrow> nat \<Rightarrow> fault + CRC64WE" where
  "add_buffer ndebug c data len =
     (case data of
        None \<Rightarrow> if ndebug then add_loop c [] len else Inl Assertion_failed
      | Some bytes \<Rightarrow> add_loop c bytes len)"

definition get :: "CRC64WE \<Rightarrow> u64" where
  "get c = crc c XOR 0xFFFFFFFFFFFFFFFF"

text \<open>A use of the accumulator is a sequence of calls of the two overloads of \<open>add\<close>; the
  first call that faults ends it.\<close>

datatype call = Add_byte u8 | Add_buffer "u8 list option" nat

fun do_call :: "bool \<Rightarrow> CRC64WE \<Rightarrow> call \<Rightarrow> fault + CRC64WE" where
  "do_call ndebug c (Add_byte b) = Inr (add c b)"
| "do_call ndebug c (Add_buffer data len) = add_buffer ndebug c data len"

fun run :: "bool \<Rightarrow> CRC64WE \<Rightarrow> call list \<Rightarrow> fault + CRC64WE" where
  "run ndebug c [] = Inr c"
| "run ndebug c (k # ks) =
     (case do_call ndebug c k of Inl f \<Rightarrow> Inl f | Inr c' \<Rightarrow> run ndebug c' ks)"

text \<open>The bytes a call feeds, and the calls that keep to the contract of \<open>add\<close>: a buffer
  holds at least \<open>len\<close> bytes, and a null pointer is passed only with length zero and only
  where the assertion is compiled out.\<close>

fun fed :: "call \<Rightarrow> u8 list" where
  "fed (Add_byte b) = [b]"
| "fed (Add_buffer None len) = []"
| "fed (Add_buffer (Some bytes) len) = take len bytes"

fun in_contract :: "bool \<Rightarrow> call \<Rightarrow> bool" where
  "in_contract ndebug (Add_byte b) = True"
| "in_contract ndebug (Add_buffer None len) = (ndebug \<and> len = 0)"
| "in_contract ndebug (Add_buffer (Some bytes) len) = (len \<le> length bytes)"

definition ascii :: "string \<Rightarrow> u8 list" where
  "ascii s = map (\<lambda>ch. of_nat (of_char ch)) s"

text \<open>
  The per-byte update as the specification words it: XOR the byte into the top 8 bits of the
  register, then 8 rounds of "shift left by 1, and if the bit shifted out of the top was 1,
  XOR the polynomial into the result".
\<close>

definition reference_round :: "u64 \<Rightarrow> u64" where
  "reference_round r =
     (let shifted_out = bit r 63; r' = push_bit 1 r
      in if shifted_out then r' XOR 0x42F0E1EBA9EA3693 else r')"

definition reference_update :: "u64 \<Rightarrow> u8 \<Rightarrow> u64" where
  "reference_update r byte = (reference_round ^^ 8) (r XOR push_bit 56 (ucast byte))"

section \<open>The halt hook and the allocation guard (sys/sys.cpp)\<close>

subsection \<open>The machine and its environment\<close>

text \<open>
  What the code of sys.cpp does to the outside: the texts it hands to the byte sink, the
  interrupt state and the breakpoints it raises.
\<close>

record machine =
  sink :: "string list"
  interrupts_enabled :: bool
  breakpoints :: nat

text \<open>The field of the operating system's \<open>thread_t\<close> that the code reads; a null
  \<^verbatim>\<open>const char*\<close> is \<open>None\<close>.\<close>

record thread_t =
  name :: "string option"

text \<open>
  The build configuration (the macros the file tests), the weak hook an application may
  replace, and the readers the code consumes: the running thread, the core registers
  (\<^verbatim>\<open>__get_X()\<close>), the registers of the system control block (\<^verbatim>\<open>SCB->X\<close>), the debug
  register \<^verbatim>\<open>CoreDebug->DHCSR\<close> and the 32-bit words of memory. \<open>assert_file\<close> and
  \<open>assert_function\<close> are what the \<open>assert\<close> macro of the C library passes for the file and
  for a function of the given name.
\<close>

record env =
  NDEBUG :: bool
  CH_CFG_USE_REGISTRY :: bool
  AGGRESSIVE_SIZE_OPTIMIZATION :: "int option"
  DEBUG_BUILD :: "int option"
  CORTEX_M :: int
  CoreDebug_DHCSR_C_DEBUGEN_Msk :: "u32 option"
  applicationHaltHook :: "machine \<Rightarrow> machine"
  chThdGetSelfX :: "thread_t option"
  core_register :: "string \<Rightarrow> u32"
  scb_register :: "string \<Rightarrow> u32"
  CoreDebug_DHCSR :: u32
  memory :: "u32 \<Rightarrow> u32"
  assert_file :: string
  assert_function :: "string \<Rightarrow> string option"

text \<open>A function of the source either returns, with the machine as it left it and its
  result, or never gives control back, the machine staying as it is.\<close>

datatype 'a outcome = Returns machine 'a | Halts machine

text \<open>\<^verbatim>\<open>while (true) { }\<close>: the body does nothing and no exit exists.\<close>

partial_function (option) while_true :: "machine \<Rightarrow> machine option" where
  "while_true s = while_true s"

definition loop_forever :: "machine \<Rightarrow> unit outcome" where
  "loop_forever s = (case while_true s of None \<Rightarrow> Halts s | Some s' \<Rightarrow> Returns s' ())"

subsection \<open>What the environment supplies\<close>

text \<open>Modelled from the spec: \<open>emergencyPrint\<close>, declared in sys.cpp and defined outside
  the files modelled here, is the byte sink \<open>write(text) -> void\<close>: it receives the text and returns nothing.
  The model keeps the texts it received, oldest first.\<close>

definition emergencyPrint :: "string \<Rightarrow> machine \<Rightarrow> machine" where
  "emergencyPrint str s = s\<lparr>sink := sink s @ [str]\<rparr>"

text \<open>Modelled from the spec: \<open>port_disable\<close>, of the operating system's port layer,
  disables all interrupt and preemption sources, unconditionally.\<close>

definition port_disable :: "machine \<Rightarrow> machine" where
  "port_disable s = s\<lparr>interrupts_enabled := False\<rparr>"

text \<open>The instruction \<^verbatim>\<open>bkpt #0\<close> breaks into the attached debugger.\<close>

definition bkpt :: "machine \<Rightarrow> machine" where
  "bkpt s = s\<lparr>breakpoints := Suc (breakpoints s)\<rparr>"

text \<open>\<open>chsnprintf\<close>, of the operating system's library, formats as \<open>printf\<close> does and writes
  at most \<open>n - 1\<close> characters into a buffer of \<open>n\<close>, before the terminator. The two formats the file uses are
  \<^verbatim>\<open>%08x\<close> (eight lower-case hexadecimal digits) and \<^verbatim>\<open>%s:%d:%s:%s\<close>.\<close>

definition chsnprintf :: "nat \<Rightarrow> string \<Rightarrow> string" where
  "chsnprintf n formatted = take (n - 1) formatted"

definition hex8 :: "u32 \<Rightarrow> string" where
  "hex8 v = map (\<lambda>i. ''0123456789abcdef'' ! unat (drop_bit (4 * i) v AND 0xF))
                [7, 6, 5, 4, 3, 2, 1, 0]"

fun dec_nat :: "nat \<Rightarrow> string" where
  "dec_nat n =
     (if n < 10 then [''0123456789'' ! n] else dec_nat (n div 10) @ [''0123456789'' ! (n mod 10)])"

declare dec_nat.simps [simp del]

definition dec :: "int \<Rightarrow> string" where
  "dec i = (if i < 0 then CHR ''-'' # dec_nat (nat (- i)) else dec_nat (nat i))"

definition crlf :: string where
  "crlf = [CHR 0x0D, CHR 0x0A]"

definition tab :: string where
  "tab = [CHR 0x09]"

subsection \<open>The halt hook\<close>

text \<open>The lambda \<open>print_register\<close>: the name, a tab, the value as \<^verbatim>\<open>%08x\<close> through a buffer of
  20 characters, and the end of the line.\<close>

definition print_register :: "string \<Rightarrow> u32 \<Rightarrow> machine \<Rightarrow> machine" where
  "print_register reg_name val s =
     (let s = emergencyPrint reg_name s;
          s = emergencyPrint tab s;
          buffer = chsnprintf 20 (hex8 val);
          s = emergencyPrint buffer s
      in emergencyPrint crlf s)"

text \<open>The lambda \<open>print_stack\<close>: the pointer and the eight words from it on; \<open>ptr[i]\<close> of a
  \<^verbatim>\<open>std::uint32_t*\<close> is the word at \<open>ptr + 4 * i\<close>.\<close>

definition print_stack :: "env \<Rightarrow> u32 \<Rightarrow> machine \<Rightarrow> machine" where
  "print_stack e ptr s =
     (let s = print_register ''Pointer'' ptr s;
          s = print_register ''R0'' (memory e ptr) s;
          s = print_register ''R1'' (memory e (ptr + 4)) s;
          s = print_register ''R2'' (memory e (ptr + 8)) s;
          s = print_register ''R3'' (memory e (ptr + 12)) s;
          s = print_register ''R12'' (memory e (ptr + 16)) s;
          s = print_register ''R14[LR]'' (memory e (ptr + 20)) s;
          s = print_register ''R15[PC]'' (memory e (ptr + 24)) s
      in print_register ''PSR'' (memory e (ptr + 28)) s)"

text \<open>\<^verbatim>\<open>PRINT_CORE_REGISTER(name)\<close> and \<^verbatim>\<open>PRINT_SCB_REGISTER(name)\<close> print a register under its
  own name.\<close>

definition PRINT_CORE_REGISTER :: "env \<Rightarrow> string \<Rightarrow> machine \<Rightarrow> machine" where
  "PRINT_CORE_REGISTER e reg_name s = print_register reg_name (core_register e reg_name) s"

definition PRINT_SCB_REGISTER :: "env \<Rightarrow> string \<Rightarrow> machine \<Rightarrow> machine" where
  "PRINT_SCB_REGISTER e reg_name s = print_register reg_name (scb_register e reg_name) s"

text \<open>The part of the hook under
  \<^verbatim>\<open>#if !defined(AGGRESSIVE_SIZE_OPTIMIZATION) || (AGGRESSIVE_SIZE_OPTIMIZATION == 0)\<close>.\<close>

definition print_registers :: "env \<Rightarrow> machine \<Rightarrow> machine" where
  "print_registers e s =
     (let s = emergencyPrint (crlf @ ''Core registers:'' @ crlf) s;
          s = PRINT_CORE_REGISTER e ''CONTROL'' s;
          s = PRINT_CORE_REGISTER e ''IPSR'' s;
          s = PRINT_CORE_REGISTER e ''APSR'' s;
          s = PRINT_CORE_REGISTER e ''xPSR'' s;
          s = PRINT_CORE_REGISTER e ''PRIMASK'' s;
          s = (if CORTEX_M e \<ge> 3
               then PRINT_CORE_REGISTER e ''FAULTMASK'' (PRINT_CORE_REGISTER e ''BASEPRI'' s)
               else s);
          s = (if CORTEX_M e \<ge> 4 then PRINT_CORE_REGISTER e ''FPSCR'' s else s);
          s = emergencyPrint (crlf @ ''Process stack:'' @ crlf) s;
          s = print_stack e (core_register e ''PSP'') s;
          s = emergencyPrint (crlf @ ''Main stack:'' @ crlf) s;
          s = print_stack e (core_register e ''MSP'') s;
          s = emergencyPrint (crlf @ ''SCB:'' @ crlf) s;
          s = PRINT_SCB_REGISTER e ''AIRCR'' s;
          s = PRINT_SCB_REGISTER e ''SCR'' s;
          s = PRINT_SCB_REGISTER e ''CCR'' s;
          s = PRINT_SCB_REGISTER e ''SHCSR'' s;
          s = PRINT_SCB_REGISTER e ''CFSR'' s;
          s = PRINT_SCB_REGISTER e ''HFSR'' s;
          s = PRINT_SCB_REGISTER e ''DFSR'' s;
          s = PRINT_SCB_REGISTER e ''MMFAR'' s;
          s = PRINT_SCB_REGISTER e ''BFAR'' s
      in PRINT_SCB_REGISTER e ''AFSR'' s)"

definition full_report :: "env \<Rightarrow> bool" where
  "full_report e = (case AGGRESSIVE_SIZE_OPTIMIZATION e of None \<Rightarrow> True | Some v \<Rightarrow> v = 0)"

text \<open>\<^verbatim>\<open>#if defined(DEBUG_BUILD) && DEBUG_BUILD && defined(CoreDebug_DHCSR_C_DEBUGEN_Msk)\<close>, and
  inside it the test of the debug register against the mask.\<close>

definition debugger_attached :: "env \<Rightarrow> bool" where
  "debugger_attached e =
     (case DEBUG_BUILD e of
        None \<Rightarrow> False
      | Some d \<Rightarrow>
          (case CoreDebug_DHCSR_C_DEBUGEN_Msk e of
             None \<Rightarrow> False
           | Some msk \<Rightarrow> d \<noteq> 0 \<and> CoreDebug_DHCSR e AND msk \<noteq> 0))"

text \<open>\<open>zchSysHaltHook(const char* msg)\<close>; a null message is \<open>None\<close>. The hook returns to
  its caller.\<close>

definition zchSysHaltHook :: "env \<Rightarrow> string option \<Rightarrow> machine \<Rightarrow> machine" where
  "zchSysHaltHook e msg s =
     (let s = applicationHaltHook e s;
          s = port_disable s;
          s = emergencyPrint (crlf @ ''PANIC ['') s;
          s = (if CH_CFG_USE_REGISTRY e
               then (case chThdGetSelfX e of
                       None \<Rightarrow> s
                     | Some pthread \<Rightarrow>
                         (case name pthread of None \<Rightarrow> s | Some n \<Rightarrow> emergencyPrint n s))
               else s);
          s = emergencyPrint ''] '' s;
          s = (case msg of None \<Rightarrow> s | Some m \<Rightarrow> emergencyPrint m s);
          s = emergencyPrint crlf s;
          s = (if full_report e then print_registers e s else s)
      in if debugger_attached e then bkpt s else s)"

text \<open>Modelled from the spec: \<open>chSysHalt\<close>, the operating system's halt request (declared in
  ch.hpp, outside the files modelled here), is the fatal halt reporter: it enters Reporting, where the halt
  hook above does steps 1 to 5, and then enters Halted, looping forever.\<close>

definition chSysHalt :: "env \<Rightarrow> string option \<Rightarrow> machine \<Rightarrow> unit outcome" where
  "chSysHalt e reason s = loop_forever (zchSysHaltHook e reason s)"

subsection \<open>The handlers that request a halt\<close>

text \<open>The functions below call \<open>chSysHalt\<close>; they take it as their first argument \<open>halt\<close>,
  so that what they do themselves is apart from what the operating system does.\<close>

type_synonym halt_request = "string option \<Rightarrow> machine \<Rightarrow> unit outcome"

definition unhandled_exception :: "halt_request \<Rightarrow> machine \<Rightarrow> unit outcome" where
  "unhandled_exception halt s = halt (Some ''UNDEFINED IRQ'') s"

text \<open>The text \<open>__assert_func\<close> formats into its static buffer of 200 characters; a null
  \<open>func\<close> prints as the empty string.\<close>

definition assert_message :: "string \<Rightarrow> int \<Rightarrow> string option \<Rightarrow> string \<Rightarrow> string" where
  "assert_message file line func expr =
     chsnprintf 200
       (file @ '':'' @ dec line @ '':'' @ (case func of None \<Rightarrow> [] | Some f \<Rightarrow> f) @ '':'' @ expr)"

text \<open>\<open>__assert_func\<close>: after the halt request stands a loop of its own.\<close>

definition assert_func ::
  "halt_request \<Rightarrow> string \<Rightarrow> int \<Rightarrow> string option \<Rightarrow> string \<Rightarrow> machine \<Rightarrow> unit outcome" where
  "assert_func halt file line func expr s =
     (let s = port_disable s;
          buffer = assert_message file line func expr
      in case halt (Some buffer) s of
           Halts s' \<Rightarrow> Halts s'
         | Returns s' u \<Rightarrow> loop_forever s')"

text \<open>The \<open>assert\<close> macro of the C library: nothing where \<open>NDEBUG\<close> is defined; elsewhere a
  false condition calls \<open>__assert_func\<close> with the file, the line, the function and the text
  of the condition.\<close>

definition c_assert ::
  "halt_request \<Rightarrow> env \<Rightarrow> int \<Rightarrow> string \<Rightarrow> string \<Rightarrow> bool \<Rightarrow> machine \<Rightarrow> unit outcome" where
  "c_assert halt e line func expr cond s =
     (if NDEBUG e then Returns s ()
      else if cond then Returns s ()
      else assert_func halt (assert_file e) line (assert_function e func) expr s)"

subsection \<open>The allocation guard\<close>

text \<open>Pointers and \<open>size_t\<close> are 32 bits wide (the hook casts a pointer to
  \<open>std::uint32_t\<close>); the null pointer is 0.\<close>

definition nullptr :: u32 where
  "nullptr = 0"

definition malloc :: "halt_request \<Rightarrow> env \<Rightarrow> u32 \<Rightarrow> machine \<Rightarrow> u32 outcome" where
  "malloc halt e sz s =
     (case c_assert halt e 235 ''malloc'' ''sz == 0'' (sz = 0) s of
        Halts s' \<Rightarrow> Halts s'
      | Returns s' u \<Rightarrow> Returns s' nullptr)"

definition calloc :: "halt_request \<Rightarrow> env \<Rightarrow> u32 \<Rightarrow> u32 \<Rightarrow> machine \<Rightarrow> u32 outcome" where
  "calloc halt e num sz s =
     (case c_assert halt e 243 ''calloc'' ''(num == 0) || (sz == 0)'' (num = 0 \<or> sz = 0) s of
        Halts s' \<Rightarrow> Halts s'
      | Returns s' u \<Rightarrow> Returns s' nullptr)"

definition realloc :: "halt_request \<Rightarrow> env \<Rightarrow> u32 \<Rightarrow> u32 \<Rightarrow> machine \<Rightarrow> u32 outcome" where
  "realloc halt e p sz s =
     (case c_assert halt e 250 ''realloc'' ''sz == 0'' (sz = 0) s of
        Halts s' \<Rightarrow> Halts s'
      | Returns s' u \<Rightarrow> Returns s' nullptr)"

definition free :: "halt_request \<Rightarrow> u32 \<Rightarrow> machine \<Rightarrow> unit outcome" where
  "free halt p s = (if p \<noteq> nullptr then halt (Some ''free'') s else Returns s ())"

subsection \<open>Notions for stating what the sink receives\<close>

text \<open>The name of the running thread, where the code can read one: the registry is compiled
  in, the thread pointer is not null and its name is not null.\<close>

definition thread_identity :: "env \<Rightarrow> string option" where
  "thread_identity e =
     (if CH_CFG_USE_REGISTRY e
      then (case chThdGetSelfX e of None \<Rightarrow> None | Some pthread \<Rightarrow> name pthread)
      else None)"

text \<open>What the sink receives for a text that may be absent: nothing at all, or the text.\<close>

definition texts :: "string option \<Rightarrow> string list" where
  "texts t = (case t of None \<Rightarrow> [] | Some str \<Rightarrow> [str])"

subsection \<open>A machine and an environment to run the code on\<close>

definition boot :: machine where
  "boot = \<lparr>sink = [], interrupts_enabled = True, breakpoints = 0\<rparr>"

text \<open>An assertions-enabled build with the thread registry, the short report and the
  default application hook, running in a thread named main.\<close>

definition example_env :: env where
  "example_env =
     \<lparr>NDEBUG = False, CH_CFG_USE_REGISTRY = True, AGGRESSIVE_SIZE_OPTIMIZATION = Some 1,
      DEBUG_BUILD = None, CORTEX_M = 4, CoreDebug_DHCSR_C_DEBUGEN_Msk = Some 1,
      applicationHaltHook = (\<lambda>s. s), chThdGetSelfX = Some \<lparr>name = Some ''main''\<rparr>,
      core_register = (\<lambda>r. 0), scb_register = (\<lambda>r. 0), CoreDebug_DHCSR = 0,
      memory = (\<lambda>a. a), assert_file = ''sys.cpp'', assert_function = Some\<rparr>"

section \<open>Properties of the accumulator\<close>

lemma add_unfold:
  "add c b = c\<lparr>crc := unrolled_line (unrolled_line (unrolled_line (unrolled_line
     (unrolled_line (unrolled_line (unrolled_line (unrolled_line
       (crc c XOR push_bit 56 (ucast b)))))))))\<rparr>"
  by (simp add: add_def)

lemma unrolled_line_reference: "unrolled_line x = reference_round x"
  by (simp add: unrolled_line_def reference_round_def Mask_def Poly_def
      bit_iff_and_push_bit_not_eq_0)

lemma add_loop_fold:
  "len \<le> length bytes \<Longrightarrow>
   add_loop c bytes len = Inr (fold (\<lambda>b c. add c b) (take len bytes) c)"
proof (induction bytes arbitrary: c len)
  case Nil
  then show ?case by simp
next
  case (Cons b bytes)
  then show ?case by (cases len) simp_all
qed

lemma add_loop_null: "0 < len \<Longrightarrow> add_loop c [] len = Inl Invalid_read"
  by (cases len) simp_all

lemma do_call_fold:
  "in_contract ndebug k \<Longrightarrow> do_call ndebug c k = Inr (fold (\<lambda>b c. add c b) (fed k) c)"
proof (cases k)
  case (Add_byte b)
  then show ?thesis by simp
next
  case (Add_buffer data len)
  assume "in_contract ndebug k"
  with Add_buffer show ?thesis
    by (cases data) (simp_all add: add_buffer_def add_loop_fold)
qed

lemma run_fold:
  "list_all (in_contract ndebug) ks \<Longrightarrow>
   run ndebug c ks = Inr (fold (\<lambda>b c. add c b) (concat (map fed ks)) c)"
proof (induction ks arbitrary: c)
  case Nil
  then show ?case by simp
next
  case (Cons k ks)
  then show ?case by (simp add: do_call_fold)
qed

subsection \<open>The check value\<close>

lemma check_step_1: "add \<lparr>crc = 0xFFFFFFFFFFFFFFFF\<rparr> 0x31 = \<lparr>crc = 0x8DB4713229B2F2A5\<rparr>"
  by (simp add: add_unfold unrolled_line_def Poly_def Mask_def)

lemma check_step_2: "add \<lparr>crc = 0x8DB4713229B2F2A5\<rparr> 0x32 = \<lparr>crc = 0xF488D61A961B3128\<rparr>"
  by (simp add: add_unfold unrolled_line_def Poly_def Mask_def)

lemma check_step_3: "add \<lparr>crc = 0xF488D61A961B3128\<rparr> 0x33 = \<lparr>crc = 0x2A0BB93A7813CA88\<rparr>"
  by (simp add: add_unfold unrolled_line_def Poly_def Mask_def)

lemma check_step_4: "add \<lparr>crc = 0x2A0BB93A7813CA88\<rparr> 0x34 = \<lparr>crc = 0x33302B9FC23855A8\<rparr>"
  by (simp add: add_unfold unrolled_line_def Poly_def Mask_def)

lemma check_step_5: "add \<lparr>crc = 0x33302B9FC23855A8\<rparr> 0x35 = \<lparr>crc = 0xFCF93A5065C329F9\<rparr>"
  by (simp add: add_unfold unrolled_line_def Poly_def Mask_def)

lemma check_step_6: "add \<lparr>crc = 0xFCF93A5065C329F9\<rparr> 0x36 = \<lparr>crc = 0xC242B8ED1B26187A\<rparr>"
  by (simp add: add_unfold unrolled_line_def Poly_def Mask_def)

lemma check_step_7: "add \<lparr>crc = 0xC242B8ED1B26187A\<rparr> 0x37 = \<lparr>crc = 0xCFC30460A7CC7B9F\<rparr>"
  by (simp add: add_unfold unrolled_line_def Poly_def Mask_def)

lemma check_step_8: "add \<lparr>crc = 0xCFC30460A7CC7B9F\<rparr> 0x38 = \<lparr>crc = 0xCB9E4A0B1E7BF3B9\<rparr>"
  by (simp add: add_unfold unrolled_line_def Poly_def Mask_def)

lemma check_step_9: "add \<lparr>crc = 0xCB9E4A0B1E7BF3B9\<rparr> 0x39 = \<lparr>crc = 0x9D13A61C0E5B0FF5\<rparr>"
  by (simp add: add_unfold unrolled_line_def Poly_def Mask_def)

lemmas check_steps = check_step_1 check_step_2 check_step_3 check_step_4 check_step_5
  check_step_6 check_step_7 check_step_8 check_step_9

text \<open>
  C1. Feeding the nine ASCII bytes of "123456789" to a freshly constructed accumulator, one
  \<open>add(byte)\<close> after the other and in order, and then calling \<open>get()\<close> gives the documented
  check value 0x62EC59E3F1A4F00A; feeding them as one buffer gives the same.
\<close>

theorem crc64we_check_value:
  "get (fold (\<lambda>b c. add c b) (ascii ''123456789'') CRC64WE_init) = 0x62EC59E3F1A4F00A
   \<and> map_sum id get (add_buffer ndebug CRC64WE_init (Some (ascii ''123456789'')) 9)
       = Inr 0x62EC59E3F1A4F00A"
proof -
  have len: "9 \<le> length (ascii ''123456789'')"
    by (simp add: ascii_def)
  have one: "get (fold (\<lambda>b c. add c b) (ascii ''123456789'') CRC64WE_init) = 0x62EC59E3F1A4F00A"
    by (simp add: ascii_def CRC64WE_init_def check_steps get_def)
  have "add_buffer ndebug CRC64WE_init (Some (ascii ''123456789'')) 9
        = Inr (fold (\<lambda>b c. add c b) (take 9 (ascii ''123456789'')) CRC64WE_init)"
    unfolding add_buffer_def using add_loop_fold [OF len] by simp
  also have "take 9 (ascii ''123456789'') = ascii ''123456789''"
    by (simp add: ascii_def)
  finally show ?thesis using one by simp
qed

subsection \<open>Chunk invariance\<close>

text \<open>
  C2. For byte sequences A and B and every way of splitting A followed by B into successive
  calls of \<open>add(byte)\<close> and \<open>add(buffer, length)\<close> that keep to the contract, the calls return,
  feeding the whole of A followed by B in one \<open>add(buffer, length)\<close> returns, and \<open>get()\<close>
  gives the same value after both, whatever the accumulator held before.
\<close>

theorem chunk_invariance:
  assumes "list_all (in_contract ndebug) ks" and "concat (map fed ks) = A @ B"
  shows "\<exists>c1 c2. run ndebug c ks = Inr c1
           \<and> add_buffer ndebug c (Some (A @ B)) (length (A @ B)) = Inr c2
           \<and> get c1 = get c2"
proof -
  have "run ndebug c ks = Inr (fold (\<lambda>b c. add c b) (A @ B) c)"
    using run_fold [OF assms(1), of c] assms(2) by simp
  moreover have "add_buffer ndebug c (Some (A @ B)) (length (A @ B))
                 = Inr (fold (\<lambda>b c. add c b) (A @ B) c)"
    using add_loop_fold [of "length (A @ B)" "A @ B" c] by (simp add: add_buffer_def)
  ultimately show ?thesis by simp
qed

theorem chunk_invariance_witness:
  "list_all (in_contract False) [Add_byte 1, Add_buffer (Some [2, 3, 9]) 2]
   \<and> concat (map fed [Add_byte 1, Add_buffer (Some [2, 3, 9]) 2]) = [1] @ [2, 3]
   \<and> (\<exists>c1 c2. run False CRC64WE_init [Add_byte 1, Add_buffer (Some [2, 3, 9]) 2] = Inr c1
         \<and> add_buffer False CRC64WE_init (Some ([1] @ [2, 3])) (length ([1] @ [2, 3 :: u8]))
             = Inr c2
         \<and> get c1 = get c2)"
proof -
  have a: "list_all (in_contract False) [Add_byte 1, Add_buffer (Some [2, 3, 9]) 2]"
    by simp
  have b: "concat (map fed [Add_byte 1, Add_buffer (Some [2, 3, 9]) 2]) = [1] @ [2, 3]"
    by (simp add: numeral_2_eq_2)
  from chunk_invariance [OF a b, of CRC64WE_init] a b show ?thesis
    by blast
qed

subsection \<open>The empty input\<close>

text \<open>
  C6. \<open>get()\<close> on a freshly constructed accumulator, before any \<open>add\<close>, returns the seed
  0xFFFFFFFFFFFFFFFF XORed with the output mask 0xFFFFFFFFFFFFFFFF, which is 0.
\<close>

theorem fresh_accumulator_get:
  "crc CRC64WE_init = 0xFFFFFFFFFFFFFFFF
   \<and> get CRC64WE_init = 0xFFFFFFFFFFFFFFFF XOR 0xFFFFFFFFFFFFFFFF
   \<and> get CRC64WE_init = 0"
  by (simp add: CRC64WE_init_def get_def)

subsection \<open>The unrolled update against the documented algorithm\<close>

text \<open>
  C7. For every byte and every register state, the unrolled \<open>add(byte)\<close> computes the state
  the documented algorithm computes: the byte XORed into the top 8 bits, then 8 rounds of
  shift left by 1 with the polynomial 0x42F0E1EBA9EA3693 XORed in when the bit shifted out
  was 1.
\<close>

theorem add_refines_reference:
  "add c byte = c\<lparr>crc := reference_update (crc c) byte\<rparr>"
  by (simp add: add_unfold unrolled_line_reference reference_update_def eval_nat_numeral)

subsection \<open>Buffers of length zero and null pointers\<close>

text \<open>
  C9, as the claim states it, fails where assertions are compiled in: a null pointer with
  length 0 fails \<^verbatim>\<open>assert(bytes != nullptr)\<close>, which stands before the loop.
\<close>

theorem add_null_zero_counterexample:
  "add_buffer False CRC64WE_init None 0 = Inl Assertion_failed
   \<and> add_buffer False CRC64WE_init None 0 \<noteq> Inr CRC64WE_init"
  by (simp add: add_buffer_def)

text \<open>
  C9, amended. \<open>add(bytes, 0)\<close> with a pointer that is not null leaves the running value
  unchanged and does not fail, and so does a null pointer where the assertion is compiled
  out. Where it is compiled in, a null pointer fails the assertion whatever the length;
  where it is compiled out, a null pointer with a nonzero length is an invalid read.
\<close>

theorem add_zero_length:
  "add_buffer ndebug c (Some bytes) 0 = Inr c
   \<and> add_buffer True c None 0 = Inr c
   \<and> add_buffer False c None len = Inl Assertion_failed
   \<and> (0 < len \<longrightarrow> add_buffer True c None len = Inl Invalid_read)"
  by (simp add: add_buffer_def add_loop_null)

theorem add_zero_length_witness:
  "add_buffer False CRC64WE_init (Some [7]) 0 = Inr CRC64WE_init
   \<and> add_buffer True CRC64WE_init None 0 = Inr CRC64WE_init
   \<and> add_buffer False CRC64WE_init None 1 = Inl Assertion_failed
   \<and> (0 :: nat) < 1
   \<and> add_buffer True CRC64WE_init None 1 = Inl Invalid_read"
  using add_zero_length [of False CRC64WE_init "[7]" 1] by simp

section \<open>Properties of the halt path and the allocation guard\<close>

subsection \<open>The empty loop\<close>

lemma while_true_Some: "while_true s = Some s' \<Longrightarrow> False"
  by (rule while_true.raw_induct [where P = "\<lambda>a b. False"])

lemma while_true_None: "while_true s = None"
proof (cases "while_true s")
  case None
  then show ?thesis .
next
  case (Some s')
  then show ?thesis by (rule while_true_Some [THEN FalseE])
qed

lemma loop_forever_halts: "loop_forever s = Halts s"
  by (simp add: loop_forever_def while_true_None)

lemma chSysHalt_halts: "chSysHalt e reason s = Halts (zchSysHaltHook e reason s)"
  by (simp add: chSysHalt_def loop_forever_halts)

lemma assert_func_never_returns: "assert_func halt file line func expr s \<noteq> Returns s' u"
  by (simp add: assert_func_def Let_def loop_forever_halts split: outcome.splits)

lemma assert_func_chSysHalt:
  "assert_func (chSysHalt e) file line func expr s =
     Halts (zchSysHaltHook e (Some (assert_message file line func expr)) (port_disable s))"
  by (simp add: assert_func_def Let_def chSysHalt_halts)

subsection \<open>What the sink receives\<close>

lemma emergencyPrint_sink: "sink (emergencyPrint str s) = sink s @ [str]"
  by (simp add: emergencyPrint_def)

lemma length_hex8: "length (hex8 v) = 8"
  by (simp add: hex8_def)

lemma print_register_sink: "sink (print_register n v s) = sink s @ [n, tab, hex8 v, crlf]"
  by (simp add: print_register_def emergencyPrint_sink chsnprintf_def length_hex8)

lemma print_stack_sink: "sink (print_stack e p s) = sink s @ sink (print_stack e p boot)"
  by (simp add: print_stack_def Let_def print_register_sink boot_def)

lemma print_registers_sink:
  "sink (print_registers e s) = sink s @ sink (print_registers e boot)"
  by (simp add: print_registers_def Let_def PRINT_CORE_REGISTER_def PRINT_SCB_REGISTER_def
      print_stack_sink [of e p "emergencyPrint x y" for p x y] print_register_sink
      emergencyPrint_sink boot_def)

lemma bkpt_sink: "sink (bkpt s) = sink s"
  by (simp add: bkpt_def)

lemma port_disable_sink: "sink (port_disable s) = sink s"
  by (simp add: port_disable_def)

lemma zchSysHaltHook_sink:
  "sink (zchSysHaltHook e msg s) =
     sink (applicationHaltHook e s) @ [crlf @ ''PANIC [''] @ texts (thread_identity e)
       @ [''] ''] @ texts msg @ [crlf]
       @ (if full_report e then sink (print_registers e boot) else [])"
  by (simp add: zchSysHaltHook_def Let_def bkpt_sink port_disable_sink emergencyPrint_sink
      print_registers_sink [of e "emergencyPrint x y" for x y] texts_def thread_identity_def
      split: option.splits)

lemma c_assert_holds: "cond \<Longrightarrow> c_assert halt e line func expr cond s = Returns s ()"
  by (simp add: c_assert_def)

lemma c_assert_ndebug: "NDEBUG e \<Longrightarrow> c_assert halt e line func expr cond s = Returns s ()"
  by (simp add: c_assert_def)

lemma c_assert_fails:
  "\<not> NDEBUG e \<Longrightarrow> \<not> cond \<Longrightarrow>
   c_assert halt e line func expr cond s =
     assert_func halt (assert_file e) line (assert_function e func) expr s"
  by (simp add: c_assert_def)

lemma c_assert_returns:
  "c_assert halt e line func expr cond s = Returns s' u \<Longrightarrow> s' = s"
  by (simp add: c_assert_def assert_func_never_returns split: if_splits)

lemma example_env_identity: "thread_identity example_env = Some ''main''"
  by (simp add: thread_identity_def example_env_def)

lemma example_env_short: "full_report example_env = False"
  by (simp add: full_report_def example_env_def)

lemma example_env_hook: "applicationHaltHook example_env s = s"
  by (simp add: example_env_def)

lemma example_env_assert:
  "NDEBUG example_env = False" "assert_file example_env = ''sys.cpp''"
  "assert_function example_env func = Some func"
  by (simp_all add: example_env_def)

lemma example_assert_messages:
  "assert_message ''sys.cpp'' 235 (Some ''malloc'') ''sz == 0'' = ''sys.cpp:235:malloc:sz == 0''"
  "assert_message ''sys.cpp'' 243 (Some ''calloc'') ''(num == 0) || (sz == 0)''
     = ''sys.cpp:243:calloc:(num == 0) || (sz == 0)''"
  "assert_message ''sys.cpp'' 250 (Some ''realloc'') ''sz == 0'' = ''sys.cpp:250:realloc:sz == 0''"
  by (simp_all add: assert_message_def chsnprintf_def dec_def dec_nat.simps)

subsection \<open>The halt path never returns\<close>

text \<open>
  C3. The fatal halt path gives control back to no caller. \<open>__assert_func\<close> never returns,
  whatever the halt request it calls does, because a loop of its own follows the request.
  A halt request, as the specification describes it (report, then loop forever), never
  returns and leaves the machine as the halt hook left it; so an explicit request, the
  handler of an unhandled exception and a failed assertion all end there.
\<close>

theorem fatal_halt_never_returns:
  "assert_func halt file line func expr s \<noteq> Returns s' u
   \<and> assert_func (chSysHalt e) file line func expr s =
       Halts (zchSysHaltHook e (Some (assert_message file line func expr)) (port_disable s))
   \<and> unhandled_exception (chSysHalt e) s = Halts (zchSysHaltHook e (Some ''UNDEFINED IRQ'') s)
   \<and> chSysHalt e msg s = Halts (zchSysHaltHook e msg s)"
  by (simp add: assert_func_never_returns assert_func_chSysHalt unhandled_exception_def
      chSysHalt_halts)

subsection \<open>The allocation guard\<close>

text \<open>
  C4, as the claim states it, fails for \<open>calloc\<close>: in an assertions-enabled build a request
  for no elements of a nonzero size passes the assertion and returns null.
\<close>

theorem calloc_zero_count_counterexample:
  "\<not> NDEBUG example_env
   \<and> calloc (chSysHalt example_env) example_env 0 5 boot = Returns boot nullptr"
  by (simp add: example_env_def calloc_def c_assert_def)

text \<open>
  C4, amended. \<open>malloc\<close>, \<open>calloc\<close> and \<open>realloc\<close> return null, and leave the machine as it
  was, whenever they return. A request of size zero (for \<open>calloc\<close>: of size zero or of no
  elements) triggers no assertion in any build. In an assertions-enabled build a request
  of nonzero size (for \<open>calloc\<close>: of a nonzero number of elements of nonzero size) never
  returns: the assertion fails and the halt hook reports it with interrupts disabled.
\<close>

theorem allocation_guard:
  "(malloc halt e sz s = Returns s' p \<longrightarrow> p = nullptr \<and> s' = s)
   \<and> (calloc halt e num sz s = Returns s' p \<longrightarrow> p = nullptr \<and> s' = s)
   \<and> (realloc halt e ptr sz s = Returns s' p \<longrightarrow> p = nullptr \<and> s' = s)
   \<and> malloc halt e 0 s = Returns s nullptr
   \<and> calloc halt e num 0 s = Returns s nullptr
   \<and> calloc halt e 0 sz s = Returns s nullptr
   \<and> realloc halt e ptr 0 s = Returns s nullptr
   \<and> (\<not> NDEBUG e \<and> sz \<noteq> 0 \<longrightarrow>
        malloc halt e sz s \<noteq> Returns s' p
        \<and> malloc (chSysHalt e) e sz s =
            Halts (zchSysHaltHook e
              (Some (assert_message (assert_file e) 235 (assert_function e ''malloc'') ''sz == 0''))
              (port_disable s)))
   \<and> (\<not> NDEBUG e \<and> num \<noteq> 0 \<and> sz \<noteq> 0 \<longrightarrow>
        calloc halt e num sz s \<noteq> Returns s' p
        \<and> calloc (chSysHalt e) e num sz s =
            Halts (zchSysHaltHook e
              (Some (assert_message (assert_file e) 243 (assert_function e ''calloc'')
                 ''(num == 0) || (sz == 0)''))
              (port_disable s)))
   \<and> (\<not> NDEBUG e \<and> sz \<noteq> 0 \<longrightarrow>
        realloc halt e ptr sz s \<noteq> Returns s' p
        \<and> realloc (chSysHalt e) e ptr sz s =
            Halts (zchSysHaltHook e
              (Some (assert_message (assert_file e) 250 (assert_function e ''realloc'') ''sz == 0''))
              (port_disable s)))"
proof -
  have returns: "p = nullptr \<and> s' = s"
    if "(case c_assert halt e line func expr cond s of
           Halts t \<Rightarrow> Halts t | Returns t u \<Rightarrow> Returns t nullptr) = Returns s' p"
    for line func expr cond
    using that by (auto split: outcome.splits dest: c_assert_returns)
  have passes: "(case c_assert h e line func expr True s of
                   Halts t \<Rightarrow> Halts t | Returns t u \<Rightarrow> Returns t nullptr) = Returns s nullptr"
    for h line func expr
    by (simp add: c_assert_holds)
  have fails: "(case c_assert h e line func expr False s of
                  Halts t \<Rightarrow> Halts t | Returns t u \<Rightarrow> Returns t nullptr)
               = (case assert_func h (assert_file e) line (assert_function e func) expr s of
                    Halts t \<Rightarrow> Halts t | Returns t u \<Rightarrow> Returns t nullptr)"
    if "\<not> NDEBUG e" for h line func expr
    using that by (simp add: c_assert_fails)
  have never: "(case assert_func halt src line func expr s of
                  Halts t \<Rightarrow> Halts t | Returns t u \<Rightarrow> Returns t nullptr) \<noteq> Returns s' p"
    for src line func expr
    using assert_func_never_returns [of halt src line func expr s]
    by (simp split: outcome.splits)
  show ?thesis
    unfolding malloc_def calloc_def realloc_def
    using returns passes
    by (auto simp: fails never assert_func_chSysHalt)
qed

theorem allocation_guard_witness:
  "malloc (chSysHalt example_env) example_env 0 boot = Returns boot nullptr
   \<and> calloc (chSysHalt example_env) example_env 3 0 boot = Returns boot nullptr
   \<and> realloc (chSysHalt example_env) example_env 7 0 boot = Returns boot nullptr
   \<and> \<not> NDEBUG example_env \<and> (3 :: u32) \<noteq> 0 \<and> (5 :: u32) \<noteq> 0
   \<and> malloc (chSysHalt example_env) example_env 5 boot =
       Halts (zchSysHaltHook example_env (Some ''sys.cpp:235:malloc:sz == 0'')
                (port_disable boot))
   \<and> calloc (chSysHalt example_env) example_env 3 5 boot =
       Halts (zchSysHaltHook example_env
                (Some ''sys.cpp:243:calloc:(num == 0) || (sz == 0)'') (port_disable boot))
   \<and> realloc (chSysHalt example_env) example_env 7 5 boot =
       Halts (zchSysHaltHook example_env (Some ''sys.cpp:250:realloc:sz == 0'')
                (port_disable boot))"
  using allocation_guard [of "chSysHalt example_env" example_env 0 boot boot nullptr 3 7]
    allocation_guard [of "chSysHalt example_env" example_env 5 boot boot nullptr 3 7]
  by (simp add: example_env_assert example_assert_messages)

subsection \<open>Releasing memory\<close>

text \<open>
  C5. \<open>free\<close> requests a halt, with the message "free", if and only if its pointer is not
  null; the halt hook then reports that message and control never returns. With a null
  pointer it returns and leaves the machine as it was.
\<close>

theorem free_escalates_iff_not_null:
  "free halt nullptr s = Returns s ()
   \<and> (p \<noteq> nullptr \<longrightarrow>
        free halt p s = halt (Some ''free'') s
        \<and> free (chSysHalt e) p s = Halts (zchSysHaltHook e (Some ''free'') s)
        \<and> sink (zchSysHaltHook e (Some ''free'') s) =
            sink (applicationHaltHook e s) @ [crlf @ ''PANIC [''] @ texts (thread_identity e)
              @ [''] '', ''free'', crlf]
              @ (if full_report e then sink (print_registers e boot) else []))
   \<and> (\<exists>s'. free (chSysHalt e) p s = Halts s') = (p \<noteq> nullptr)"
  by (simp add: free_def chSysHalt_halts zchSysHaltHook_sink texts_def)

theorem free_escalates_iff_not_null_witness:
  "free (chSysHalt example_env) nullptr boot = Returns boot ()
   \<and> (0x20000000 :: u32) \<noteq> nullptr
   \<and> free (chSysHalt example_env) 0x20000000 boot =
       Halts (zchSysHaltHook example_env (Some ''free'') boot)
   \<and> sink (zchSysHaltHook example_env (Some ''free'') boot) =
       [crlf @ ''PANIC ['', ''main'', ''] '', ''free'', crlf]"
  using free_escalates_iff_not_null [of "chSysHalt example_env" boot "0x20000000" example_env]
  by (simp add: nullptr_def chSysHalt_halts example_env_identity example_env_short
      example_env_hook texts_def boot_def)

subsection \<open>The panic message\<close>

text \<open>
  C8, as the claim states it, fails where the code can read no thread name, here because
  the registry is compiled out: the sink receives the closing bracket right after the
  opening delimiter, and no placeholder in between.
\<close>

theorem halt_hook_no_placeholder_counterexample:
  "sink (zchSysHaltHook (example_env\<lparr>CH_CFG_USE_REGISTRY := False\<rparr>) (Some ''stop'') boot)
     = [crlf @ ''PANIC ['', ''] '', ''stop'', crlf]
   \<and> \<not> (\<exists>placeholder. placeholder \<noteq> []
          \<and> concat (sink (zchSysHaltHook (example_env\<lparr>CH_CFG_USE_REGISTRY := False\<rparr>)
                       (Some ''stop'') boot))
              = crlf @ ''PANIC ['' @ placeholder @ ''] stop'' @ crlf)"
proof -
  have "sink (zchSysHaltHook (example_env\<lparr>CH_CFG_USE_REGISTRY := False\<rparr>) (Some ''stop'') boot)
        = [crlf @ ''PANIC ['', ''] '', ''stop'', crlf]"
    by (simp add: zchSysHaltHook_sink thread_identity_def full_report_def texts_def
        example_env_def boot_def)
  then show ?thesis by simp
qed

text \<open>
  C8, amended. When the halt hook is invoked with a message, the sink receives, after what
  the application's hook left there and in this order: the opening delimiter, the name of
  the running thread where the code can read one and nothing in its place where it cannot,
  the closing bracket, the message and the end of the line; the register report follows
  unless the build leaves it out.
\<close>

theorem halt_hook_message_order:
  "sink (zchSysHaltHook e (Some m) s) =
     sink (applicationHaltHook e s) @ [crlf @ ''PANIC [''] @ texts (thread_identity e)
       @ [''] '', m, crlf]
       @ (if full_report e then sink (print_registers e boot) else [])"
  by (simp add: zchSysHaltHook_sink texts_def)

theorem halt_hook_message_order_witness:
  "sink (zchSysHaltHook example_env (Some ''stop'') boot)
     = [crlf @ ''PANIC ['', ''main'', ''] '', ''stop'', crlf]"
  using halt_hook_message_order [of example_env "''stop''" boot]
  by (simp add: example_env_identity example_env_short example_env_hook texts_def boot_def)

subsection \<open>A null message\<close>

text \<open>
  C10. The halt hook reads its message only where the pointer is not null: with a null
  message the sink still receives the opening delimiter, the name of the thread where the
  code can read one, the closing bracket and the end of the line, and no message text.
\<close>

theorem halt_hook_null_message:
  "sink (zchSysHaltHook e None s) =
     sink (applicationHaltHook e s) @ [crlf @ ''PANIC [''] @ texts (thread_identity e)
       @ [''] '', crlf]
       @ (if full_report e then sink (print_registers e boot) else [])"
  by (simp add: zchSysHaltHook_sink texts_def)

theorem halt_hook_null_message_witness:
  "sink (zchSysHaltHook example_env None boot) = [crlf @ ''PANIC ['', ''main'', ''] '', crlf]"
  using halt_hook_null_message [of example_env boot]
  by (simp add: example_env_identity example_env_short example_env_hook texts_def boot_def)

end
